theory Spec2Isabelle
  imports Complex_Main "HOL-Library.AList"
begin

section \<open>Python values, exceptions and text\<close>

text \<open>
  The dashboard \<^verbatim>\<open>app.py\<close> is a Streamlit script: every user interaction re-runs it from the
  top. One run is modelled as a function from the external libraries (a record of
  parameters), the widget values of the run and the session store to the list of elements
  the run puts on the page, the way the run ends and the session store it leaves.

  A Python \<^verbatim>\<open>float\<close> is a real number, an infinity or NaN; rounding is not modelled. The
  comparisons follow IEEE 754 as Python does: every ordered comparison with NaN is false.
\<close>

datatype pyfloat = Float real | PosInf | NegInf | NaN

fun float_lt :: "pyfloat \<Rightarrow> pyfloat \<Rightarrow> bool" where
  "float_lt NaN _ = False"
| "float_lt _ NaN = False"
| "float_lt (Float x) (Float y) = (x < y)"
| "float_lt (Float _) PosInf = True"
| "float_lt (Float _) NegInf = False"
| "float_lt NegInf NegInf = False"
| "float_lt NegInf _ = True"
| "float_lt PosInf _ = False"

definition float_gt :: "pyfloat \<Rightarrow> pyfloat \<Rightarrow> bool" where
  "float_gt a b = float_lt b a"

text \<open>\<^verbatim>\<open>x * 100\<close> for a float \<^verbatim>\<open>x\<close>.\<close>

fun times100 :: "pyfloat \<Rightarrow> pyfloat" where
  "times100 (Float x) = Float (x * 100)"
| "times100 PosInf = PosInf"
| "times100 NegInf = NegInf"
| "times100 NaN = NaN"

datatype pyval = PNone | PInt int | PFloat pyfloat | PStr string

text \<open>
  An exception is its class and the text \<^verbatim>\<open>str(e)\<close>. \<open>BaseExceptionOnly\<close> stands for the
  classes that derive from \<^verbatim>\<open>BaseException\<close> but not from \<^verbatim>\<open>Exception\<close>
  (\<^verbatim>\<open>KeyboardInterrupt\<close>, \<^verbatim>\<open>SystemExit\<close>), which \<^verbatim>\<open>except Exception\<close> lets through.
\<close>

datatype exn_class =
    FileNotFoundError | KeyError | IndexError | ValueError | TypeError | AttributeError
  | OtherException string | BaseExceptionOnly string

datatype py_exn = Raised (exn_class: exn_class) (exn_str: string)

fun isinstance_Exception :: "py_exn \<Rightarrow> bool" where
  "isinstance_Exception (Raised (BaseExceptionOnly _) _) = False"
| "isinstance_Exception (Raised _ _) = True"

text \<open>
  Text is UTF-8: a character outside ASCII is the list of its bytes. \<^verbatim>\<open>str(None)\<close> is
  \<^verbatim>\<open>None\<close>, which is what an f-string prints for a selection over no options.
\<close>

definition label_str :: "string option \<Rightarrow> string" where
  "label_str l = (case l of None \<Rightarrow> ''None'' | Some s \<Rightarrow> s)"

definition endswith :: "string \<Rightarrow> string \<Rightarrow> bool" where
  "endswith s suf = (length suf \<le> length s \<and> drop (length s - length suf) s = suf)"

section \<open>Data model\<close>

text \<open>
  A dataset is a table of named columns. A column is numeric (a NumPy number dtype) or
  of dtype object; column labels are strings, as a CSV header gives them.
\<close>

datatype column = Numeric "pyfloat list" | Object "string list"

type_synonym dataframe = "(string \<times> column) list"

definition columns :: "dataframe \<Rightarrow> string list" where
  "columns df = map fst df"

text \<open>\<^verbatim>\<open>df.head()\<close>: the first five rows.\<close>

fun head_column :: "column \<Rightarrow> column" where
  "head_column (Numeric xs) = Numeric (take 5 xs)"
| "head_column (Object xs) = Object (take 5 xs)"

definition head :: "dataframe \<Rightarrow> dataframe" where
  "head df = map (\<lambda>(c, v). (c, head_column v)) df"

text \<open>\<^verbatim>\<open>df.select_dtypes(include=np.number).columns\<close>\<close>

fun is_numeric :: "column \<Rightarrow> bool" where
  "is_numeric (Numeric _) = True"
| "is_numeric (Object _) = False"

definition select_dtypes_number :: "dataframe \<Rightarrow> string list" where
  "select_dtypes_number df = map fst (filter (\<lambda>(c, v). is_numeric v) df)"

text \<open>\<^verbatim>\<open>df[col]\<close>\<close>

definition getitem :: "dataframe \<Rightarrow> string option \<Rightarrow> py_exn + column" where
  "getitem df col =
     (case col of
        None \<Rightarrow> Inl (Raised KeyError ''None'')
      | Some c \<Rightarrow>
          (case map_of df c of
             None \<Rightarrow> Inl (Raised KeyError ([CHR 0x27] @ c @ [CHR 0x27]))
           | Some v \<Rightarrow> Inr v))"

record uploaded_file =
  upload_name :: string
  upload_data :: string

text \<open>
  The stats record of a feature is a dict of which the script reads five keys; each field
  is the value under that key, or \<open>None\<close> when the key is absent.
\<close>

record feature_stats =
  stats_type :: "pyval option"
  stats_classes :: "pyval list option"
  stats_min :: "pyval option"
  stats_max :: "pyval option"
  stats_mean :: "pyval option"

text \<open>The empty dict \<^verbatim>\<open>{}\<close>, the default of \<^verbatim>\<open>STATS.get(feat, {})\<close>.\<close>

definition empty_stats :: feature_stats where
  "empty_stats = \<lparr>stats_type = None, stats_classes = None, stats_min = None,
                  stats_max = None, stats_mean = None\<rparr>"

text \<open>
  The serialized artifact is a dict with the keys \<^verbatim>\<open>model\<close>, \<^verbatim>\<open>encoders\<close>, \<^verbatim>\<open>features\<close> and
  \<^verbatim>\<open>stats\<close>; a field is \<open>None\<close> when its key is absent. Dicts whose order the script
  follows are association lists.
\<close>

record ('model, 'enc) model_payload =
  payload_model :: "'model option"
  payload_encoders :: "(string \<times> 'enc) list option"
  payload_features :: "string list option"
  payload_stats :: "(string \<times> feature_stats) list option"

text \<open>The module-level names the loader binds.\<close>

record ('model, 'enc) model_bundle =
  model_loaded :: bool
  model :: "'model option"
  encoders :: "(string \<times> 'enc) list"
  FEATURES :: "string list"
  STATS :: "(string \<times> feature_stats) list"

text \<open>The gauge of the prediction screen: the value shown and the colour bands.\<close>

record gauge =
  gauge_value :: pyfloat
  gauge_suffix :: string
  gauge_axis_range :: "int \<times> int"
  gauge_bar_color :: string
  gauge_steps :: "((int \<times> int) \<times> string) list"
  gauge_title :: string

section \<open>External libraries\<close>

text \<open>
  pandas, plotly, scipy, scikit-learn, joblib and Python's number formatting are not part
  of the repository: each call is a parameter that returns a value or raises.
  A statistical routine returns the pair (statistic, p-value).
\<close>

record ('fig, 'model, 'enc) libs =
  joblib_load :: "string \<Rightarrow> py_exn + ('model, 'enc) model_payload"
  read_csv :: "uploaded_file \<Rightarrow> py_exn + dataframe"
  read_excel :: "uploaded_file \<Rightarrow> py_exn + dataframe"
  px_histogram :: "dataframe \<Rightarrow> string option \<Rightarrow> nat \<Rightarrow> string \<Rightarrow> string \<Rightarrow> py_exn + 'fig"
  px_box :: "dataframe \<Rightarrow> string option \<Rightarrow> string \<Rightarrow> string \<Rightarrow> py_exn + 'fig"
  px_scatter :: "dataframe \<Rightarrow> string option \<Rightarrow> string option \<Rightarrow> string \<Rightarrow> string \<Rightarrow> py_exn + 'fig"
  px_pie :: "(string \<times> nat) list \<Rightarrow> string option \<Rightarrow> string \<Rightarrow> py_exn + 'fig"
  quantile :: "column \<Rightarrow> py_exn + (pyfloat \<times> pyfloat)"
  median :: "column \<Rightarrow> py_exn + pyfloat"
  corr :: "column \<Rightarrow> column \<Rightarrow> py_exn + pyfloat"
  value_counts :: "column \<Rightarrow> py_exn + (string \<times> nat) list"
  mannwhitneyu :: "column \<Rightarrow> column \<Rightarrow> py_exn + (pyfloat \<times> pyfloat)"
  wilcoxon :: "column \<Rightarrow> column \<Rightarrow> py_exn + (pyfloat \<times> pyfloat)"
  kruskal :: "column \<Rightarrow> column \<Rightarrow> py_exn + (pyfloat \<times> pyfloat)"
  spearmanr :: "column \<Rightarrow> column \<Rightarrow> py_exn + (pyfloat \<times> pyfloat)"
  format_f :: "nat \<Rightarrow> pyfloat \<Rightarrow> string"
  astype_str :: "pyval \<Rightarrow> string"
  le_transform :: "'enc \<Rightarrow> string \<Rightarrow> py_exn + pyval"
  predict_proba :: "'model \<Rightarrow> (string \<times> pyval) list \<Rightarrow> py_exn + pyfloat"
  go_indicator :: "gauge \<Rightarrow> py_exn + 'fig"

section \<open>Model Loader\<close>

definition MODEL_FILE :: string where
  "MODEL_FILE = ''model.pkl''"

text \<open>
  \<^verbatim>\<open>model_payload["key"]\<close> raises \<^verbatim>\<open>KeyError\<close> on an absent key, and
  \<^verbatim>\<open>except FileNotFoundError\<close> catches that class only: any other exception leaves the
  script.
\<close>

definition key_error :: "string \<Rightarrow> py_exn" where
  "key_error k = Raised KeyError ([CHR 0x27] @ k @ [CHR 0x27])"

definition load_model :: "('fig, 'model, 'enc) libs \<Rightarrow> py_exn + ('model, 'enc) model_bundle" where
  "load_model lib =
     (case joblib_load lib MODEL_FILE of
        Inl e \<Rightarrow>
          (if exn_class e = FileNotFoundError
           then Inr \<lparr>model_loaded = False, model = None, encoders = [],
                     FEATURES = [], STATS = []\<rparr>
           else Inl e)
      | Inr model_payload \<Rightarrow>
          (case payload_model model_payload of
             None \<Rightarrow> Inl (key_error ''model'')
           | Some m \<Rightarrow>
               (case payload_features model_payload of
                  None \<Rightarrow> Inl (key_error ''features'')
                | Some fs \<Rightarrow>
                    (case payload_stats model_payload of
                       None \<Rightarrow> Inl (key_error ''stats'')
                     | Some st \<Rightarrow>
                         Inr \<lparr>model_loaded = True, model = Some m,
                              encoders = (case payload_encoders model_payload of
                                            None \<Rightarrow> [] | Some en \<Rightarrow> en),
                              FEATURES = fs, STATS = st\<rparr>))))"

section \<open>The page and the widgets\<close>

text \<open>
  Every Streamlit call of a run is recorded in order: what it shows, and for a widget its
  label and its arguments. \<^verbatim>\<open>st.stop()\<close> ends the run; an exception that no handler
  catches ends it too and reaches the Streamlit runtime.
\<close>

datatype 'fig ui_event =
    St_sidebar_title string
  | St_sidebar_radio string "string list"
  | St_header string
  | St_markdown string
  | St_write string
  | St_success string
  | St_info string
  | St_warning string
  | St_error string
  | St_dataframe dataframe
  | St_plotly_chart 'fig
  | St_file_uploader string "string list"
  | St_selectbox string "pyval list"
  | St_color_picker string string
  | St_columns nat
  | St_button string
  | St_number_input string pyval pyval pyval

datatype outcome = Completed | Stopped | Crashed py_exn

datatype 'a flow = Value 'a | Stop | Raise py_exn

definition and_then :: "py_exn + 'a \<Rightarrow> ('a \<Rightarrow> 'b flow) \<Rightarrow> 'b flow" where
  "and_then r k = (case r of Inl e \<Rightarrow> Raise e | Inr v \<Rightarrow> k v)"

text \<open>
  The widget values of one run. A selection widget returns the option at the position the
  user chose (position 0 until the user changes it), and \<^verbatim>\<open>None\<close> when it has no options.
  \<^verbatim>\<open>st.number_input\<close> belongs to Streamlit: it is a parameter that, given the label and the
  three numeric arguments, returns the number entered or raises.
\<close>

record user =
  pick_menu :: nat
  uploaded :: "uploaded_file option"
  pick_x :: nat
  pick_y :: nat
  pick_chart :: nat
  color_choice :: string
  pick_var1 :: nat
  pick_var2 :: nat
  pick_test :: nat
  test_pressed :: bool
  pick_class :: "string \<Rightarrow> nat"
  number_input :: "string \<Rightarrow> pyval \<Rightarrow> pyval \<Rightarrow> pyval \<Rightarrow> py_exn + pyval"
  predict_pressed :: bool

definition selected :: "'a list \<Rightarrow> nat \<Rightarrow> 'a option" where
  "selected opts i = (if i < length opts then Some (opts ! i) else None)"

section \<open>Import\<close>

definition importer_header :: string where
  "importer_header =
     [CHR 0xF0, CHR 0x9F, CHR 0x93, CHR 0x82] @ '' Importation des donn'' @ [CHR 0xC3, CHR 0xA9] @ ''es''"

definition importer_success :: string where
  "importer_success =
     [CHR 0xE2, CHR 0x9C, CHR 0x85] @ '' Importation r'' @ [CHR 0xC3, CHR 0xA9] @ ''ussie.''"

text \<open>
  The screen returns the page, the way the run ends and the session store. The parse is
  not inside any \<^verbatim>\<open>try\<close>: when it raises, the run ends there, before the assignment to
  \<^verbatim>\<open>st.session_state["df"]\<close>.
\<close>

definition importer ::
  "('fig, 'model, 'enc) libs \<Rightarrow> user \<Rightarrow> dataframe option
     \<Rightarrow> 'fig ui_event list \<times> outcome \<times> dataframe option" where
  "importer lib ui session =
     (let page = [St_header importer_header,
                  St_file_uploader ''Choisissez un fichier CSV/Excel (ex : BD_DIABETE.csv)''
                     [''csv'', ''xlsx'']]
      in case uploaded ui of
           None \<Rightarrow> (page, Completed, session)
         | Some uploaded_file \<Rightarrow>
             (case (if endswith (upload_name uploaded_file) ''.csv''
                    then read_csv lib uploaded_file
                    else read_excel lib uploaded_file) of
                Inl e \<Rightarrow> (page, Crashed e, session)
              | Inr df \<Rightarrow>
                  (page @ [St_success importer_success, St_dataframe (head df)],
                   Completed, Some df)))"

section \<open>Visualisations\<close>

definition AUCUNE :: string where
  "AUCUNE = ''Aucune''"

definition HISTOGRAMME :: string where
  "HISTOGRAMME = ''Histogramme''"

definition BOITE_A_MOUSTACHES :: string where
  "BOITE_A_MOUSTACHES = ''Bo'' @ [CHR 0xC3, CHR 0xAE] @ ''te '' @ [CHR 0xC3, CHR 0xA0] @ '' moustaches''"

definition NUAGE_DE_POINTS :: string where
  "NUAGE_DE_POINTS = ''Nuage de points''"

definition DIAGRAMME_CIRCULAIRE :: string where
  "DIAGRAMME_CIRCULAIRE = ''Diagramme circulaire''"

definition chart_types :: "string list" where
  "chart_types = [HISTOGRAMME, BOITE_A_MOUSTACHES, NUAGE_DE_POINTS, DIAGRAMME_CIRCULAIRE]"

definition histogram_interpretation :: "string option \<Rightarrow> string" where
  "histogram_interpretation xcol =
     ''On observe la r'' @ [CHR 0xC3, CHR 0xA9] @ ''partition de la variable **'' @ label_str xcol
     @ ''**. Si une barre domine, cela signifie que cette valeur est plus fr''
     @ [CHR 0xC3, CHR 0xA9] @ ''quente dans notre '' @ [CHR 0xC3, CHR 0xA9] @ ''chantillon.''"

definition box_interpretation :: "string option \<Rightarrow> string \<Rightarrow> string \<Rightarrow> string \<Rightarrow> string" where
  "box_interpretation xcol med q1 q3 =
     ''La m'' @ [CHR 0xC3, CHR 0xA9] @ ''diane de **'' @ label_str xcol
     @ ''** se situe autour de '' @ med @ ''. Les valeurs comprises entre '' @ q1
     @ '' et '' @ q3 @ '' repr'' @ [CHR 0xC3, CHR 0xA9] @ ''sentent la majorit''
     @ [CHR 0xC3, CHR 0xA9] @ '' des donn'' @ [CHR 0xC3, CHR 0xA9] @ ''es. Des points ''
     @ [CHR 0xC3, CHR 0xA9] @ ''loign'' @ [CHR 0xC3, CHR 0xA9]
     @ ''s pourraient indiquer des valeurs extr'' @ [CHR 0xC3, CHR 0xAA] @ ''mes.''"

text \<open>The three sentences of the scatter chart (lines 145, 147 and 149).\<close>

definition positive_sentence :: "string option \<Rightarrow> string option \<Rightarrow> string" where
  "positive_sentence xcol ycol =
     ''Plus '' @ label_str xcol @ '' augmente, plus '' @ label_str ycol @ '' tend ''
     @ [CHR 0xC3, CHR 0xA0] @ '' augmenter. On observe une corr'' @ [CHR 0xC3, CHR 0xA9]
     @ ''lation positive entre ces deux variables.''"

definition negative_sentence :: "string option \<Rightarrow> string option \<Rightarrow> string" where
  "negative_sentence xcol ycol =
     ''Lorsque '' @ label_str xcol @ '' augmente, '' @ label_str ycol
     @ '' diminue. Il existe une corr'' @ [CHR 0xC3, CHR 0xA9] @ ''lation n''
     @ [CHR 0xC3, CHR 0xA9] @ ''gative marqu'' @ [CHR 0xC3, CHR 0xA9]
     @ ''e entre les deux variables.''"

definition unclear_sentence :: "string option \<Rightarrow> string option \<Rightarrow> string" where
  "unclear_sentence xcol ycol =
     ''Aucune relation claire n'' @ [CHR 0xE2, CHR 0x80, CHR 0x99] @ ''appara''
     @ [CHR 0xC3, CHR 0xAE] @ ''t entre **'' @ label_str xcol @ ''** et **'' @ label_str ycol
     @ ''**, les points semblent dispers'' @ [CHR 0xC3, CHR 0xA9]
     @ ''s sans tendance nette.''"

definition scatter_interpretation :: "string option \<Rightarrow> string option \<Rightarrow> pyfloat \<Rightarrow> string" where
  "scatter_interpretation xcol ycol correlation =
     (if float_gt correlation (Float 0.5) then positive_sentence xcol ycol
      else if float_lt correlation (Float (- 0.5)) then negative_sentence xcol ycol
      else unclear_sentence xcol ycol)"

text \<open>\<^verbatim>\<open>str\<close> of a count.\<close>

fun str_nat :: "nat \<Rightarrow> string" where
  "str_nat n =
     (if n < 10 then [char_of (48 + n)]
      else str_nat (n div 10) @ [char_of (48 + n mod 10)])"

declare str_nat.simps [simp del]

definition pie_interpretation :: "string \<Rightarrow> nat \<Rightarrow> string" where
  "pie_interpretation top1 val =
     ''La modalit'' @ [CHR 0xC3, CHR 0xA9] @ '' **'' @ top1 @ ''** est la plus repr''
     @ [CHR 0xC3, CHR 0xA9] @ ''sent'' @ [CHR 0xC3, CHR 0xA9] @ ''e ('' @ str_nat val
     @ '' observations). Cela indique que cette cat'' @ [CHR 0xC3, CHR 0xA9]
     @ ''gorie est dominante dans l'' @ [CHR 0xE2, CHR 0x80, CHR 0x99, CHR 0xC3, CHR 0xA9]
     @ ''chantillon.''"

definition scatter_warning :: string where
  "scatter_warning = ''Veuillez choisir une variable Y pour un nuage de points.''"

text \<open>
  Lines 128 to 157: the chart and its interpretation, the warning and the stop of a
  scatter chart without Y, or the exception of a library call. The difference
  \<^verbatim>\<open>iqr = q3 - q1\<close> is computed and never used.
\<close>

definition build_chart ::
  "('fig, 'model, 'enc) libs \<Rightarrow> dataframe \<Rightarrow> string option \<Rightarrow> string option \<Rightarrow> string option
     \<Rightarrow> string \<Rightarrow> 'fig ui_event list \<times> ('fig \<times> string) flow" where
  "build_chart lib df xcol ycol chart_type color =
     (if chart_type = Some HISTOGRAMME then
        ([], and_then (px_histogram lib df xcol 20 color (''Histogramme de '' @ label_str xcol))
               (\<lambda>fig. Value (fig, histogram_interpretation xcol)))
      else if chart_type = Some BOITE_A_MOUSTACHES then
        ([], and_then (px_box lib df xcol color (BOITE_A_MOUSTACHES @ '' : '' @ label_str xcol))
               (\<lambda>fig. and_then (getitem df xcol)
               (\<lambda>sx. and_then (quantile lib sx)
               (\<lambda>(q1, q3). and_then (median lib sx)
               (\<lambda>med. Value (fig, box_interpretation xcol (format_f lib 2 med)
                                      (format_f lib 2 q1) (format_f lib 2 q3)))))))
      else if chart_type = Some NUAGE_DE_POINTS then
        (if ycol = Some AUCUNE then ([St_warning scatter_warning], Stop)
         else
           ([], and_then (px_scatter lib df xcol ycol color
                            (''Nuage de points : '' @ label_str xcol @ '' vs '' @ label_str ycol))
                  (\<lambda>fig. and_then (getitem df xcol)
                  (\<lambda>sx. and_then (getitem df ycol)
                  (\<lambda>sy. and_then (corr lib sx sy)
                  (\<lambda>correlation. Value (fig, scatter_interpretation xcol ycol correlation)))))))
      else
        ([], and_then (getitem df xcol)
               (\<lambda>sx. and_then (value_counts lib sx)
               (\<lambda>counts. and_then (px_pie lib counts xcol
                                      (''R'' @ [CHR 0xC3, CHR 0xA9] @ ''partition de '' @ label_str xcol))
               (\<lambda>fig. case counts of
                         [] \<Rightarrow> Raise (Raised IndexError ''single positional indexer is out-of-bounds'')
                       | (top1, val) # _ \<Rightarrow> Value (fig, pie_interpretation top1 val))))))"

definition visualisations_header :: string where
  "visualisations_header =
     [CHR 0xF0, CHR 0x9F, CHR 0x93, CHR 0x8A] @ '' Visualisation interactive des donn''
     @ [CHR 0xC3, CHR 0xA9] @ ''es''"

definition visualisations_no_data :: string where
  "visualisations_no_data =
     [CHR 0xE2, CHR 0x9A, CHR 0xA0, CHR 0xEF, CHR 0xB8, CHR 0x8F] @ '' Importez d'' @ [CHR 0x27]
     @ ''abord un fichier de donn'' @ [CHR 0xC3, CHR 0xA9] @ ''es.''"

definition interpretation_prefix :: string where
  "interpretation_prefix =
     [CHR 0xF0, CHR 0x9F, CHR 0xA7, CHR 0xA0] @ '' Interpr'' @ [CHR 0xC3, CHR 0xA9] @ ''tation : ''"

text \<open>The four widgets of the screen (lines 122 to 125).\<close>

definition chart_widgets :: "dataframe \<Rightarrow> 'fig ui_event list" where
  "chart_widgets df =
     [St_selectbox ''Variable X'' (map PStr (columns df)),
      St_selectbox ''Variable Y (optionnel)'' (map PStr (AUCUNE # columns df)),
      St_selectbox ''Type de graphique'' (map PStr chart_types),
      St_color_picker ([CHR 0xF0, CHR 0x9F, CHR 0x8E, CHR 0xA8] @ '' Choisissez une couleur'')
        ''#0E6BA8'']"

definition visualisations ::
  "('fig, 'model, 'enc) libs \<Rightarrow> user \<Rightarrow> dataframe option \<Rightarrow> 'fig ui_event list \<times> outcome" where
  "visualisations lib ui session =
     (case session of
        None \<Rightarrow> ([St_header visualisations_header, St_warning visualisations_no_data], Completed)
      | Some df \<Rightarrow>
          (let xcol = selected (columns df) (pick_x ui);
               ycol = selected (AUCUNE # columns df) (pick_y ui);
               chart_type = selected chart_types (pick_chart ui);
               page = St_header visualisations_header # chart_widgets df
           in case build_chart lib df xcol ycol chart_type (color_choice ui) of
                (shown, Value (fig, interpretation)) \<Rightarrow>
                  (page @ shown @ [St_plotly_chart fig,
                                   St_info (interpretation_prefix @ interpretation)],
                   Completed)
              | (shown, Stop) \<Rightarrow> (page @ shown, Stopped)
              | (shown, Raise e) \<Rightarrow> (page @ shown, Crashed e)))"

section \<open>Non-parametric tests\<close>

definition test_names :: "string list" where
  "test_names = [''Mann-Whitney'', ''Wilcoxon'', ''Kruskal-Wallis'', ''Spearman'']"

definition mannwhitney_interpretation :: string where
  "mannwhitney_interpretation =
     ''Le test compare les m'' @ [CHR 0xC3, CHR 0xA9] @ ''dianes de deux groupes ind''
     @ [CHR 0xC3, CHR 0xA9] @ ''pendants.''"

definition wilcoxon_interpretation :: string where
  "wilcoxon_interpretation =
     ''Ce test v'' @ [CHR 0xC3, CHR 0xA9] @ ''rifie si deux mesures appari''
     @ [CHR 0xC3, CHR 0xA9] @ ''es diff'' @ [CHR 0xC3, CHR 0xA8] @ ''rent significativement.''"

definition kruskal_interpretation :: string where
  "kruskal_interpretation =
     ''Ce test compare la distribution de plusieurs groupes pour voir s''
     @ [CHR 0xE2, CHR 0x80, CHR 0x99] @ ''ils diff'' @ [CHR 0xC3, CHR 0xA8] @ ''rent.''"

definition spearman_interpretation :: string where
  "spearman_interpretation =
     ''Il mesure la force de la relation monotone entre deux variables num''
     @ [CHR 0xC3, CHR 0xA9] @ ''riques.''"

definition significant_message :: "string \<Rightarrow> string" where
  "significant_message interpretation =
     [CHR 0xE2, CHR 0x9C, CHR 0x85] @ '' R'' @ [CHR 0xC3, CHR 0xA9] @ ''sultat significatif : ''
     @ interpretation @ ''. Il existe une diff'' @ [CHR 0xC3, CHR 0xA9]
     @ ''rence ou une relation notable.''"

definition not_significant_message :: "string option \<Rightarrow> string" where
  "not_significant_message test =
     [CHR 0xE2, CHR 0x9A, CHR 0xA0, CHR 0xEF, CHR 0xB8, CHR 0x8F] @ '' Pas de diff''
     @ [CHR 0xC3, CHR 0xA9] @ ''rence significative d'' @ [CHR 0xC3, CHR 0xA9] @ ''tect''
     @ [CHR 0xC3, CHR 0xA9] @ ''e selon '' @ label_str test @ ''.''"

text \<open>Lines 197 to 200.\<close>

definition verdict :: "string option \<Rightarrow> string \<Rightarrow> pyfloat \<Rightarrow> 'fig ui_event" where
  "verdict test interpretation p =
     (if float_lt p (Float 0.05) then St_info (significant_message interpretation)
      else St_warning (not_significant_message test))"

text \<open>Lines 183 to 194: the routine of the selection and its sentence.\<close>

definition routine ::
  "('fig, 'model, 'enc) libs \<Rightarrow> string option
     \<Rightarrow> (column \<Rightarrow> column \<Rightarrow> py_exn + (pyfloat \<times> pyfloat)) \<times> string" where
  "routine lib test =
     (if test = Some ''Mann-Whitney'' then (mannwhitneyu lib, mannwhitney_interpretation)
      else if test = Some ''Wilcoxon'' then (wilcoxon lib, wilcoxon_interpretation)
      else if test = Some ''Kruskal-Wallis'' then (kruskal lib, kruskal_interpretation)
      else (spearmanr lib, spearman_interpretation))"

text \<open>The body of the \<^verbatim>\<open>try\<close> (lines 183 to 200): what it shows, or the exception raised.\<close>

definition run_test ::
  "('fig, 'model, 'enc) libs \<Rightarrow> dataframe \<Rightarrow> string option \<Rightarrow> string option \<Rightarrow> string option
     \<Rightarrow> py_exn + 'fig ui_event list" where
  "run_test lib df var1 var2 test =
     (case getitem df var1 of
        Inl e \<Rightarrow> Inl e
      | Inr a \<Rightarrow>
          (case getitem df var2 of
             Inl e \<Rightarrow> Inl e
           | Inr b \<Rightarrow>
               (case fst (routine lib test) a b of
                  Inl e \<Rightarrow> Inl e
                | Inr (stat, p) \<Rightarrow>
                    Inr [St_success (''Statistique = '' @ format_f lib 3 stat
                                     @ '' | p-valeur = '' @ format_f lib 4 p),
                         verdict test (snd (routine lib test)) p])))"

definition tests_header :: string where
  "tests_header =
     [CHR 0xF0, CHR 0x9F, CHR 0xA7, CHR 0xAA] @ '' Tests non param'' @ [CHR 0xC3, CHR 0xA9]
     @ ''triques''"

definition tests_no_data :: string where
  "tests_no_data =
     ''Importez d'' @ [CHR 0x27] @ ''abord des donn'' @ [CHR 0xC3, CHR 0xA9] @ ''es.''"

definition tests_too_few :: string where
  "tests_too_few =
     ''Besoin d'' @ [CHR 0x27] @ ''au moins deux colonnes num'' @ [CHR 0xC3, CHR 0xA9]
     @ ''riques.''"

definition test_widgets :: "string list \<Rightarrow> 'fig ui_event list" where
  "test_widgets num_cols =
     [St_columns 2,
      St_selectbox ''Variable A'' (map PStr num_cols),
      St_selectbox ''Variable B'' (map PStr num_cols),
      St_selectbox ''Choisir un test'' (map PStr test_names),
      St_button (''Ex'' @ [CHR 0xC3, CHR 0xA9] @ ''cuter le test'')]"

definition tests ::
  "('fig, 'model, 'enc) libs \<Rightarrow> user \<Rightarrow> dataframe option \<Rightarrow> 'fig ui_event list \<times> outcome" where
  "tests lib ui session =
     (case session of
        None \<Rightarrow> ([St_header tests_header, St_warning tests_no_data], Completed)
      | Some df \<Rightarrow>
          (let num_cols = select_dtypes_number df
           in if length num_cols < 2
              then ([St_header tests_header, St_warning tests_too_few], Completed)
              else
                (let var1 = selected num_cols (pick_var1 ui);
                     var2 = selected num_cols (pick_var2 ui);
                     test = selected test_names (pick_test ui);
                     page = St_header tests_header # test_widgets num_cols
                 in if test_pressed ui
                    then (case run_test lib df var1 var2 test of
                            Inr shown \<Rightarrow> (page @ shown, Completed)
                          | Inl e \<Rightarrow>
                              (if isinstance_Exception e
                               then (page @ [St_error (''Erreur : '' @ exn_str e)], Completed)
                               else (page, Crashed e)))
                    else (page, Completed))))"

section \<open>Prediction\<close>

definition PRIMARY :: string where
  "PRIMARY = ''#0E6BA8''"

definition prediction_header :: string where
  "prediction_header =
     [CHR 0xF0, CHR 0x9F, CHR 0x94, CHR 0xAE] @ '' Pr'' @ [CHR 0xC3, CHR 0xA9]
     @ ''diction du risque de diab'' @ [CHR 0xC3, CHR 0xA8] @ ''te''"

definition model_missing_message :: string where
  "model_missing_message =
     ''Le fichier '' @ MODEL_FILE @ '' est introuvable. Ex'' @ [CHR 0xC3, CHR 0xA9]
     @ ''cutez d'' @ [CHR 0x27] @ ''abord train_model.py pour g'' @ [CHR 0xC3, CHR 0xA9] @ ''n''
     @ [CHR 0xC3, CHR 0xA9] @ ''rer le mod'' @ [CHR 0xC3, CHR 0xA8] @ ''le.''"

definition prediction_prompt :: string where
  "prediction_prompt =
     ''### Entrez les valeurs pour pr'' @ [CHR 0xC3, CHR 0xA9] @ ''dire le risque :''"

definition predict_button :: string where
  "predict_button =
     [CHR 0xF0, CHR 0x9F, CHR 0x94, CHR 0xAE] @ '' Pr'' @ [CHR 0xC3, CHR 0xA9] @ ''dire''"

text \<open>
  The body of the loop over \<^verbatim>\<open>FEATURES\<close> (lines 217 to 222): the widget shown and the value
  stored in \<^verbatim>\<open>user_input[feat]\<close>, or the exception of \<^verbatim>\<open>st.number_input\<close>. The defaults of
  the three \<^verbatim>\<open>get\<close> calls are the integers 0 and 1 and the float 0.5.
\<close>

definition feature_input ::
  "user \<Rightarrow> (string \<times> feature_stats) list \<Rightarrow> string \<Rightarrow> py_exn + ('fig ui_event \<times> pyval)" where
  "feature_input ui stats feat =
     (let info = (case map_of stats feat of None \<Rightarrow> empty_stats | Some i \<Rightarrow> i)
      in if stats_type info = Some (PStr ''categorical'')
         then (let classes = (case stats_classes info of None \<Rightarrow> [] | Some cs \<Rightarrow> cs)
               in Inr (St_selectbox feat classes,
                       case selected classes (pick_class ui feat) of
                         None \<Rightarrow> PNone | Some v \<Rightarrow> v))
         else (let minv = (case stats_min info of None \<Rightarrow> PInt 0 | Some v \<Rightarrow> v);
                   maxv = (case stats_max info of None \<Rightarrow> PInt 1 | Some v \<Rightarrow> v);
                   meanv = (case stats_mean info of None \<Rightarrow> PFloat (Float 0.5) | Some v \<Rightarrow> v)
               in case number_input ui feat minv maxv meanv of
                    Inl e \<Rightarrow> Inl e
                  | Inr v \<Rightarrow> Inr (St_number_input feat minv maxv meanv, v)))"

text \<open>
  The loop: the widgets shown so far and the dict \<^verbatim>\<open>user_input\<close>, or the exception that
  ended the loop. An assignment to a key of the dict keeps the key's position.
\<close>

fun collect_inputs ::
  "user \<Rightarrow> (string \<times> feature_stats) list \<Rightarrow> string list \<Rightarrow> (string \<times> pyval) list
     \<Rightarrow> 'fig ui_event list \<times> (py_exn + (string \<times> pyval) list)" where
  "collect_inputs ui stats [] user_input = ([], Inr user_input)"
| "collect_inputs ui stats (feat # feats) user_input =
     (case feature_input ui stats feat of
        Inl e \<Rightarrow> ([], Inl e)
      | Inr (shown, v) \<Rightarrow>
          (case collect_inputs ui stats feats (AList.update feat v user_input) of
             (rest, r) \<Rightarrow> (shown # rest, r)))"

text \<open>Lines 227 to 229: the loop over \<^verbatim>\<open>encoders.items()\<close>.\<close>

fun encode_columns ::
  "('fig, 'model, 'enc) libs \<Rightarrow> (string \<times> 'enc) list \<Rightarrow> (string \<times> pyval) list
     \<Rightarrow> py_exn + (string \<times> pyval) list" where
  "encode_columns lib [] input_df = Inr input_df"
| "encode_columns lib ((col, le) # rest) input_df =
     (case map_of input_df col of
        None \<Rightarrow> encode_columns lib rest input_df
      | Some v \<Rightarrow>
          (case le_transform lib le (astype_str lib v) of
             Inl e \<Rightarrow> Inl e
           | Inr code \<Rightarrow> encode_columns lib rest (AList.update col code input_df)))"

definition gauge_figure :: "pyfloat \<Rightarrow> gauge" where
  "gauge_figure prob =
     \<lparr>gauge_value = prob, gauge_suffix = ''%'', gauge_axis_range = (0, 100),
      gauge_bar_color = PRIMARY,
      gauge_steps = [((0, 30), ''#BEE6FF''), ((30, 70), ''#FDDC6B''), ((70, 100), ''#FF9A9A'')],
      gauge_title = ''Probabilit'' @ [CHR 0xC3, CHR 0xA9] @ '' de diab'' @ [CHR 0xC3, CHR 0xA8]
                    @ ''te''\<rparr>"

definition low_risk :: "string \<Rightarrow> string" where
  "low_risk percent = ''Faible risque ('' @ percent @ ''%)''"

definition moderate_risk :: "string \<Rightarrow> string" where
  "moderate_risk percent =
     ''Risque mod'' @ [CHR 0xC3, CHR 0xA9] @ ''r'' @ [CHR 0xC3, CHR 0xA9] @ '' ('' @ percent @ ''%)''"

definition high_risk :: "string \<Rightarrow> string" where
  "high_risk percent =
     ''Risque '' @ [CHR 0xC3, CHR 0xA9] @ ''lev'' @ [CHR 0xC3, CHR 0xA9] @ '' ('' @ percent @ ''%)''"

text \<open>Lines 243 to 248.\<close>

definition risk_band :: "('fig, 'model, 'enc) libs \<Rightarrow> pyfloat \<Rightarrow> 'fig ui_event" where
  "risk_band lib prob =
     (if float_lt prob (Float 30) then St_success (low_risk (format_f lib 1 prob))
      else if float_lt prob (Float 70) then St_warning (moderate_risk (format_f lib 1 prob))
      else St_error (high_risk (format_f lib 1 prob)))"

text \<open>
  The body of the \<^verbatim>\<open>try\<close> (lines 226 to 248). \<^verbatim>\<open>model\<close> is \<^verbatim>\<open>None\<close> only when the artifact is
  missing, and then the screen has stopped before.
\<close>

definition predict ::
  "('fig, 'model, 'enc) libs \<Rightarrow> ('model, 'enc) model_bundle \<Rightarrow> (string \<times> pyval) list
     \<Rightarrow> py_exn + 'fig ui_event list" where
  "predict lib bundle user_input =
     (case encode_columns lib (encoders bundle) user_input of
        Inl e \<Rightarrow> Inl e
      | Inr input_df \<Rightarrow>
          (case model bundle of
             None \<Rightarrow>
               Inl (Raised AttributeError
                      ([CHR 0x27] @ ''NoneType'' @ [CHR 0x27] @ '' object has no attribute ''
                       @ [CHR 0x27] @ ''predict_proba'' @ [CHR 0x27]))
           | Some m \<Rightarrow>
               (case predict_proba lib m input_df of
                  Inl e \<Rightarrow> Inl e
                | Inr positive \<Rightarrow>
                    (let prob = times100 positive
                     in case go_indicator lib (gauge_figure prob) of
                          Inl e \<Rightarrow> Inl e
                        | Inr fig \<Rightarrow> Inr [St_plotly_chart fig, risk_band lib prob]))))"

definition prediction ::
  "('fig, 'model, 'enc) libs \<Rightarrow> user \<Rightarrow> ('model, 'enc) model_bundle
     \<Rightarrow> 'fig ui_event list \<times> outcome" where
  "prediction lib ui bundle =
     (if \<not> model_loaded bundle
      then ([St_header prediction_header, St_error model_missing_message], Stopped)
      else
        (case collect_inputs ui (STATS bundle) (FEATURES bundle) [] of
           (widgets, Inl e) \<Rightarrow>
             ([St_header prediction_header, St_write prediction_prompt] @ widgets, Crashed e)
         | (widgets, Inr user_input) \<Rightarrow>
             (let page = [St_header prediction_header, St_write prediction_prompt] @ widgets
                         @ [St_button predict_button]
              in if predict_pressed ui
                 then (case predict lib bundle user_input of
                         Inr shown \<Rightarrow> (page @ shown, Completed)
                       | Inl e \<Rightarrow>
                           (if isinstance_Exception e
                            then (page @ [St_error (''Erreur : '' @ exn_str e)], Completed)
                            else (page, Crashed e)))
                 else (page, Completed))))"

section \<open>Home screen and navigation\<close>

definition ACCUEIL :: string where
  "ACCUEIL = [CHR 0xF0, CHR 0x9F, CHR 0x8F, CHR 0xA0] @ '' Accueil''"

definition IMPORTER :: string where
  "IMPORTER = [CHR 0xF0, CHR 0x9F, CHR 0x93, CHR 0x82] @ '' Importer''"

definition VISUALISATIONS :: string where
  "VISUALISATIONS = [CHR 0xF0, CHR 0x9F, CHR 0x93, CHR 0x8A] @ '' Visualisations''"

definition TESTS :: string where
  "TESTS = [CHR 0xF0, CHR 0x9F, CHR 0xA7, CHR 0xAA] @ '' Tests''"

definition PREDICTION :: string where
  "PREDICTION =
     [CHR 0xF0, CHR 0x9F, CHR 0x94, CHR 0xAE] @ '' Pr'' @ [CHR 0xC3, CHR 0xA9] @ ''diction (IA)''"

definition menu_options :: "string list" where
  "menu_options = [ACCUEIL, IMPORTER, VISUALISATIONS, TESTS, PREDICTION]"

definition sidebar :: "'fig ui_event list" where
  "sidebar =
     [St_sidebar_title ([CHR 0xF0, CHR 0x9F, CHR 0x92, CHR 0x99] @ '' TTK_StatTestIA''),
      St_sidebar_radio ''Navigation'' menu_options]"

definition accueil :: "'fig ui_event list" where
  "accueil =
     [St_markdown (''<div style='' @ [CHR 0x27] @ ''text-align:center'' @ [CHR 0x27] @ ''>''),
      St_markdown (''<div class='' @ [CHR 0x27] @ ''heart'' @ [CHR 0x27] @ ''>''
        @ [CHR 0xF0, CHR 0x9F, CHR 0x92, CHR 0x99] @ ''</div>''),
      St_markdown (''<div class='' @ [CHR 0x27] @ ''title'' @ [CHR 0x27]
        @ ''>TTK_StatTestIA</div>''),
      St_markdown (''<div class='' @ [CHR 0x27] @ ''subtitle'' @ [CHR 0x27]
        @ ''>Explorez vos donn'' @ [CHR 0xC3, CHR 0xA9] @ ''es, testez vos hypoth''
        @ [CHR 0xC3, CHR 0xA8] @ ''ses et pr'' @ [CHR 0xC3, CHR 0xA9]
        @ ''disez le risque de diab'' @ [CHR 0xC3, CHR 0xA8] @ ''te gr'' @ [CHR 0xC3, CHR 0xA2]
        @ ''ce '' @ [CHR 0xC3, CHR 0xA0] @ '' une IA l'' @ [CHR 0xC3, CHR 0xA9] @ ''g''
        @ [CHR 0xC3, CHR 0xA8] @ ''re et intuitive.</div>''),
      St_markdown ([CHR 0x0A] @ ''    <div class='' @ [CHR 0x22] @ ''button-container''
        @ [CHR 0x22] @ ''>'' @ [CHR 0x0A] @ ''        <button class='' @ [CHR 0x22] @ ''big-btn''
        @ [CHR 0x22] @ ''>'' @ [CHR 0xF0, CHR 0x9F, CHR 0x93, CHR 0x82] @ '' Importer des donn''
        @ [CHR 0xC3, CHR 0xA9] @ ''es</button>'' @ [CHR 0x0A] @ ''        <button class=''
        @ [CHR 0x22] @ ''big-btn'' @ [CHR 0x22] @ ''>'' @ [CHR 0xF0, CHR 0x9F, CHR 0x93, CHR 0x8A]
        @ '' Visualisations</button>'' @ [CHR 0x0A] @ ''        <button class='' @ [CHR 0x22]
        @ ''big-btn'' @ [CHR 0x22] @ ''>'' @ [CHR 0xF0, CHR 0x9F, CHR 0xA7, CHR 0xAA]
        @ '' Tests</button>'' @ [CHR 0x0A] @ ''        <button class='' @ [CHR 0x22]
        @ ''big-btn'' @ [CHR 0x22] @ ''>'' @ [CHR 0xF0, CHR 0x9F, CHR 0x94, CHR 0xAE] @ '' Pr''
        @ [CHR 0xC3, CHR 0xA9] @ ''diction IA</button>'' @ [CHR 0x0A] @ ''    </div>''
        @ [CHR 0x0A] @ ''    ''),
      St_markdown (''<div style='' @ [CHR 0x27]
        @ ''text-align:center; margin-top:50px; color:#444;'' @ [CHR 0x27]
        @ ''>Bienvenue sur TTK_StatTestIA, votre plateforme d'' @ [CHR 0xE2, CHR 0x80, CHR 0x99]
        @ ''analyse statistique interactive et de pr'' @ [CHR 0xC3, CHR 0xA9] @ ''diction assist''
        @ [CHR 0xC3, CHR 0xA9] @ ''e par intelligence artificielle.</div>'')]"

text \<open>
  One run of the script from the model loader on: the loader, the sidebar, and the screen
  of the navigation choice. The page configuration and the style sheet of lines 14 to 54
  come before and are left out. The chain of \<^verbatim>\<open>if\<close>/\<^verbatim>\<open>elif\<close> has no \<^verbatim>\<open>else\<close>.
\<close>

definition app ::
  "('fig, 'model, 'enc) libs \<Rightarrow> user \<Rightarrow> dataframe option
     \<Rightarrow> 'fig ui_event list \<times> outcome \<times> dataframe option" where
  "app lib ui session =
     (case load_model lib of
        Inl e \<Rightarrow> ([], Crashed e, session)
      | Inr bundle \<Rightarrow>
          (let menu = selected menu_options (pick_menu ui)
           in if menu = Some ACCUEIL then (sidebar @ accueil, Completed, session)
              else if menu = Some IMPORTER then
                (case importer lib ui session of
                   (shown, out, session') \<Rightarrow> (sidebar @ shown, out, session'))
              else if menu = Some VISUALISATIONS then
                (case visualisations lib ui session of
                   (shown, out) \<Rightarrow> (sidebar @ shown, out, session))
              else if menu = Some TESTS then
                (case tests lib ui session of
                   (shown, out) \<Rightarrow> (sidebar @ shown, out, session))
              else if menu = Some PREDICTION then
                (case prediction lib ui bundle of
                   (shown, out) \<Rightarrow> (sidebar @ shown, out, session))
              else (sidebar, Completed, session)))"

section \<open>Pearson's coefficient\<close>

text \<open>
  \<^verbatim>\<open>Series.corr\<close> is pandas' routine; its default method is Pearson's product-moment
  coefficient, written here over the reals. A column without variance gives NaN.
\<close>

definition mean :: "real list \<Rightarrow> real" where
  "mean xs = sum_list xs / real (length xs)"

definition pearson :: "real list \<Rightarrow> real list \<Rightarrow> pyfloat" where
  "pearson xs ys =
     (let mx = mean xs; my = mean ys;
          sxy = sum_list (map2 (\<lambda>x y. (x - mx) * (y - my)) xs ys);
          sxx = sum_list (map (\<lambda>x. (x - mx) ^ 2) xs);
          syy = sum_list (map (\<lambda>y. (y - my) ^ 2) ys)
      in if sxx * syy = 0 then NaN else Float (sxy / (sqrt sxx * sqrt syy)))"

section \<open>A concrete run\<close>

text \<open>
  The dataset of the end-to-end scenario, a dataset with a column that bears the label of
  the placeholder, and one instance of the libraries and of the widget values on which the
  screens can be run: a figure is its title, the artifact is missing, Wilcoxon raises.
\<close>

definition diabetes_df :: dataframe where
  "diabetes_df =
     [(''Age'', Numeric [Float 25, Float 30, Float 35, Float 40]),
      (''Glucose'', Numeric [Float 85, Float 95, Float 105, Float 115])]"

definition aucune_df :: dataframe where
  "aucune_df =
     [(''Aucune'', Numeric [Float 1, Float 2, Float 3]),
      (''Age'', Numeric [Float 25, Float 30, Float 35])]"

fun finite_values :: "pyfloat list \<Rightarrow> real list" where
  "finite_values [] = []"
| "finite_values (Float v # xs) = v # finite_values xs"
| "finite_values (_ # xs) = finite_values xs"

fun pearson_columns :: "column \<Rightarrow> column \<Rightarrow> py_exn + pyfloat" where
  "pearson_columns (Numeric xs) (Numeric ys) = Inr (pearson (finite_values xs) (finite_values ys))"
| "pearson_columns _ _ = Inl (Raised TypeError ''unsupported operand type(s)'')"

definition example_libs :: "(string, nat, nat) libs" where
  "example_libs =
     \<lparr>joblib_load = (\<lambda>path. Inl (Raised FileNotFoundError path)),
      read_csv = (\<lambda>f. if upload_data f = []
                       then Inl (Raised (OtherException ''EmptyDataError'')
                                   ''No columns to parse from file'')
                       else Inr diabetes_df),
      read_excel = (\<lambda>f. Inl (Raised ValueError ''Excel file format cannot be determined'')),
      px_histogram = (\<lambda>df x nbins color title. Inr title),
      px_box = (\<lambda>df y color title. Inr title),
      px_scatter = (\<lambda>df x y color title. Inr title),
      px_pie = (\<lambda>counts names title. Inr title),
      quantile = (\<lambda>s. Inr (Float 0, Float 0)),
      median = (\<lambda>s. Inr (Float 0)),
      corr = pearson_columns,
      value_counts = (\<lambda>s. Inr []),
      mannwhitneyu = (\<lambda>a b. Inr (Float 8, Float 1)),
      wilcoxon = (\<lambda>a b. Inl (Raised ValueError ''zero_method'')),
      kruskal = (\<lambda>a b. Inr (Float 0, Float 1)),
      spearmanr = (\<lambda>a b. Inr (Float 1, Float 0)),
      format_f = (\<lambda>digits x. ''#''),
      astype_str = (\<lambda>v. []),
      le_transform = (\<lambda>le v. Inr (PInt 0)),
      predict_proba = (\<lambda>m input_df. Inr (Float (1 / 2))),
      go_indicator = (\<lambda>g. Inr (gauge_title g))\<rparr>"

definition example_user :: user where
  "example_user =
     \<lparr>pick_menu = 4, uploaded = Some \<lparr>upload_name = ''BD_DIABETE.csv'', upload_data = []\<rparr>,
      pick_x = 0, pick_y = 2, pick_chart = 2, color_choice = ''#0E6BA8'',
      pick_var1 = 0, pick_var2 = 1, pick_test = 1, test_pressed = True,
      pick_class = (\<lambda>feat. 0),
      number_input = (\<lambda>label minv maxv v. Inr v),
      predict_pressed = True\<rparr>"

definition example_bundle :: "(nat, nat) model_bundle" where
  "example_bundle =
     \<lparr>model_loaded = True, model = Some 0, encoders = [], FEATURES = [''Glucose''],
      STATS = []\<rparr>"

text \<open>
  A number input that, as Streamlit's does, refuses numeric arguments that are not all
  integers or all floats, and otherwise returns the default.
\<close>

fun is_int_arg :: "pyval \<Rightarrow> bool" where
  "is_int_arg (PInt _) = True"
| "is_int_arg PNone = True"
| "is_int_arg _ = False"

fun is_float_arg :: "pyval \<Rightarrow> bool" where
  "is_float_arg (PFloat _) = True"
| "is_float_arg PNone = True"
| "is_float_arg _ = False"

definition strict_number_input :: "string \<Rightarrow> pyval \<Rightarrow> pyval \<Rightarrow> pyval \<Rightarrow> py_exn + pyval" where
  "strict_number_input label minv maxv v =
     (if list_all is_int_arg [minv, maxv, v] \<or> list_all is_float_arg [minv, maxv, v]
      then Inr v
      else Inl (Raised (OtherException ''StreamlitMixedNumericTypesError'')
                  ''All numerical arguments must be of the same type.''))"

section \<open>Properties of the screens\<close>

subsection \<open>Auxiliary facts\<close>

lemma chart_names_distinct:
  "NUAGE_DE_POINTS \<noteq> HISTOGRAMME" "NUAGE_DE_POINTS \<noteq> BOITE_A_MOUSTACHES"
  "HISTOGRAMME \<noteq> BOITE_A_MOUSTACHES" "DIAGRAMME_CIRCULAIRE \<noteq> HISTOGRAMME"
  "DIAGRAMME_CIRCULAIRE \<noteq> BOITE_A_MOUSTACHES" "DIAGRAMME_CIRCULAIRE \<noteq> NUAGE_DE_POINTS"
  by (simp_all add: NUAGE_DE_POINTS_def HISTOGRAMME_def BOITE_A_MOUSTACHES_def DIAGRAMME_CIRCULAIRE_def)

lemma sentences_distinct:
  "positive_sentence x y \<noteq> negative_sentence x' y'"
  "positive_sentence x y \<noteq> unclear_sentence x' y'"
  "negative_sentence x y \<noteq> unclear_sentence x' y'"
  by (simp_all add: positive_sentence_def negative_sentence_def unclear_sentence_def)




lemma scatter_built:
  assumes "ycol \<noteq> Some AUCUNE"
    and "px_scatter lib df xcol ycol color
           (''Nuage de points : '' @ label_str xcol @ '' vs '' @ label_str ycol) = Inr fig"
    and "getitem df xcol = Inr sx" and "getitem df ycol = Inr sy"
    and "corr lib sx sy = Inr r"
  shows "build_chart lib df xcol ycol (Some NUAGE_DE_POINTS) color =
           ([], Value (fig, scatter_interpretation xcol ycol r))"
  using assms by (simp add: build_chart_def and_then_def chart_names_distinct)

lemma sqrt_62500: "sqrt 125 * sqrt 500 = (250::real)"
proof -
  have "sqrt 125 * sqrt 500 = sqrt (125 * 500 :: real)"
    by (rule real_sqrt_mult [symmetric])
  also have "(125 * 500 :: real) = 250\<^sup>2" by simp
  also have "sqrt ((250::real)\<^sup>2) = 250" by simp
  finally show ?thesis .
qed

lemma pearson_age_glucose: "pearson [25, 30, 35, 40] [85, 95, 105, 115] = Float 1"
  by (simp add: pearson_def mean_def Let_def power2_eq_square sqrt_62500)

lemma feature_input_fallback:
  assumes "map_of stats feat = None
           \<or> (\<exists>info. map_of stats feat = Some info
                \<and> stats_type info \<noteq> Some (PStr ''categorical'')
                \<and> stats_min info = None \<and> stats_max info = None \<and> stats_mean info = None)"
  shows "feature_input ui stats feat =
           (case number_input ui feat (PInt 0) (PInt 1) (PFloat (Float 0.5)) of
              Inl e \<Rightarrow> Inl e
            | Inr v \<Rightarrow> Inr (St_number_input feat (PInt 0) (PInt 1) (PFloat (Float 0.5)), v))"
  using assms by (auto simp add: feature_input_def empty_stats_def Let_def split: sum.splits)

subsection \<open>Scatter interpretation\<close>

text \<open>
  Claim C1. For every dataset, pair of columns and coefficient \<open>r\<close> that the correlation
  routine returns for them, the scatter chart is shown with an interpretation chosen by \<open>r\<close>
  alone: the positive-relation sentence when \<open>r > 0.5\<close>, the negative-relation sentence when
  \<open>r < -0.5\<close>, and the inconclusive sentence otherwise, which includes \<open>r = 0.5\<close>,
  \<open>r = -0.5\<close> and NaN. The three sentences differ, so the sentence tells the branch.
\<close>

theorem scatter_interpretation_by_correlation:
  assumes "selected chart_types (pick_chart ui) = Some NUAGE_DE_POINTS"
    and "selected (columns df) (pick_x ui) = xcol"
    and "selected (AUCUNE # columns df) (pick_y ui) = ycol"
    and "ycol \<noteq> Some AUCUNE"
    and "px_scatter lib df xcol ycol (color_choice ui)
           (''Nuage de points : '' @ label_str xcol @ '' vs '' @ label_str ycol) = Inr fig"
    and "getitem df xcol = Inr sx" and "getitem df ycol = Inr sy"
    and "corr lib sx sy = Inr r"
  shows "visualisations lib ui (Some df) =
           (St_header visualisations_header # chart_widgets df
              @ [St_plotly_chart fig,
                 St_info (interpretation_prefix @ scatter_interpretation xcol ycol r)],
            Completed)
         \<and> scatter_interpretation xcol ycol r =
             (case r of
                Float v \<Rightarrow>
                  if v > 0.5 then positive_sentence xcol ycol
                  else if v < - 0.5 then negative_sentence xcol ycol
                  else unclear_sentence xcol ycol
              | PosInf \<Rightarrow> positive_sentence xcol ycol
              | NegInf \<Rightarrow> negative_sentence xcol ycol
              | NaN \<Rightarrow> unclear_sentence xcol ycol)
         \<and> scatter_interpretation xcol ycol (Float 0.5) = unclear_sentence xcol ycol
         \<and> scatter_interpretation xcol ycol (Float (- 0.5)) = unclear_sentence xcol ycol
         \<and> positive_sentence xcol ycol \<noteq> negative_sentence xcol ycol
         \<and> positive_sentence xcol ycol \<noteq> unclear_sentence xcol ycol
         \<and> negative_sentence xcol ycol \<noteq> unclear_sentence xcol ycol"
proof -
  have shown: "build_chart lib df xcol ycol (Some NUAGE_DE_POINTS) (color_choice ui) =
          ([], Value (fig, scatter_interpretation xcol ycol r))"
    using assms(4-8) by (rule scatter_built)
  have screen: "visualisations lib ui (Some df) =
           (St_header visualisations_header # chart_widgets df
              @ [St_plotly_chart fig,
                 St_info (interpretation_prefix @ scatter_interpretation xcol ycol r)],
            Completed)"
    using shown assms(1-3) by (simp add: visualisations_def)
  have cls: "scatter_interpretation xcol ycol r =
             (case r of
                Float v \<Rightarrow>
                  if v > 0.5 then positive_sentence xcol ycol
                  else if v < - 0.5 then negative_sentence xcol ycol
                  else unclear_sentence xcol ycol
              | PosInf \<Rightarrow> positive_sentence xcol ycol
              | NegInf \<Rightarrow> negative_sentence xcol ycol
              | NaN \<Rightarrow> unclear_sentence xcol ycol)"
    by (cases r) (simp_all add: scatter_interpretation_def float_gt_def)
  have b1: "scatter_interpretation xcol ycol (Float 0.5) = unclear_sentence xcol ycol"
    by (simp add: scatter_interpretation_def float_gt_def)
  have b2: "scatter_interpretation xcol ycol (Float (- 0.5)) = unclear_sentence xcol ycol"
    by (simp add: scatter_interpretation_def float_gt_def)
  show ?thesis using screen cls b1 b2 sentences_distinct by blast
qed

theorem scatter_interpretation_by_correlation_witness:
  "visualisations example_libs example_user (Some diabetes_df) =
     (St_header visualisations_header # chart_widgets diabetes_df
        @ [St_plotly_chart ''Nuage de points : Age vs Glucose'',
           St_info (interpretation_prefix
                    @ scatter_interpretation (Some ''Age'') (Some ''Glucose'')
                        (pearson [25, 30, 35, 40] [85, 95, 105, 115]))],
      Completed)"
  using scatter_interpretation_by_correlation
    [where ui = example_user and df = diabetes_df and lib = example_libs
       and xcol = "Some ''Age''" and ycol = "Some ''Glucose''"
       and fig = "''Nuage de points : Age vs Glucose''"
       and sx = "Numeric [Float 25, Float 30, Float 35, Float 40]"
       and sy = "Numeric [Float 85, Float 95, Float 105, Float 115]"
       and r = "pearson [25, 30, 35, 40] [85, 95, 105, 115]"]
  by (simp add: example_user_def example_libs_def diabetes_df_def selected_def columns_def
      chart_types_def AUCUNE_def label_str_def getitem_def)

subsection \<open>Risk bands\<close>



subsection \<open>Significance verdict\<close>



subsection \<open>Import\<close>

text \<open>
  Claim C4. When the parse of the uploaded file raises, the import screen ends with that
  exception, which reaches the Streamlit runtime, and the session store is what it was; when
  the parse returns a dataset, the store holds that dataset and the success message and the
  first rows are shown. The store changes only when the parse has returned a dataset.
\<close>

theorem import_failure_keeps_session:
  assumes "uploaded ui = Some f"
    and "parsed = (if endswith (upload_name f) ''.csv'' then read_csv lib f else read_excel lib f)"
  shows "(\<forall>e. parsed = Inl e \<longrightarrow>
            importer lib ui session =
              ([St_header importer_header,
                St_file_uploader ''Choisissez un fichier CSV/Excel (ex : BD_DIABETE.csv)''
                  [''csv'', ''xlsx'']],
               Crashed e, session))
         \<and> (\<forall>df. parsed = Inr df \<longrightarrow>
              importer lib ui session =
                ([St_header importer_header,
                  St_file_uploader ''Choisissez un fichier CSV/Excel (ex : BD_DIABETE.csv)''
                    [''csv'', ''xlsx''],
                  St_success importer_success, St_dataframe (head df)],
                 Completed, Some df))
         \<and> (snd (snd (importer lib ui session)) \<noteq> session \<longrightarrow> (\<exists>df. parsed = Inr df))"
  using assms by (auto simp add: importer_def Let_def split: sum.splits)

theorem import_failure_keeps_session_witness:
  "importer example_libs example_user (Some aucune_df) =
     ([St_header importer_header,
       St_file_uploader ''Choisissez un fichier CSV/Excel (ex : BD_DIABETE.csv)''
         [''csv'', ''xlsx'']] :: string ui_event list,
      Crashed (Raised (OtherException ''EmptyDataError'') ''No columns to parse from file''),
      Some aucune_df)"
  using import_failure_keeps_session
    [where ui = example_user and lib = example_libs and session = "Some aucune_df"
       and f = "\<lparr>upload_name = ''BD_DIABETE.csv'', upload_data = []\<rparr>"
       and parsed = "Inl (Raised (OtherException ''EmptyDataError'')
                            ''No columns to parse from file'')"]
  by (simp add: example_user_def example_libs_def endswith_def)

subsection \<open>Model loader\<close>

text \<open>
  Claim C5. When loading the artifact raises \<^verbatim>\<open>FileNotFoundError\<close>, the loader raises nothing
  and binds \<^verbatim>\<open>model_loaded = False\<close>, \<^verbatim>\<open>model = None\<close> and empty \<^verbatim>\<open>encoders\<close>, \<^verbatim>\<open>FEATURES\<close> and
  \<^verbatim>\<open>STATS\<close>. When the artifact is there with its keys \<^verbatim>\<open>model\<close>, \<^verbatim>\<open>features\<close> and \<^verbatim>\<open>stats\<close>,
  \<^verbatim>\<open>model_loaded\<close> is true and \<^verbatim>\<open>FEATURES\<close> is the recorded feature list.
\<close>

theorem load_model_missing_or_present:
  "(joblib_load lib MODEL_FILE = Inl (Raised FileNotFoundError msg) \<longrightarrow>
      load_model lib = Inr \<lparr>model_loaded = False, model = None, encoders = [],
                            FEATURES = [], STATS = []\<rparr>)
   \<and> (joblib_load lib MODEL_FILE = Inr payload \<and> payload_model payload = Some m
        \<and> payload_features payload = Some fs \<and> payload_stats payload = Some st \<longrightarrow>
      (\<exists>bundle. load_model lib = Inr bundle \<and> model_loaded bundle \<and> FEATURES bundle = fs
         \<and> STATS bundle = st \<and> model bundle = Some m))"
  by (auto simp add: load_model_def)

theorem load_model_missing_or_present_witness:
  "load_model example_libs =
     Inr \<lparr>model_loaded = False, model = None, encoders = [], FEATURES = [], STATS = []\<rparr>
   \<and> (\<exists>bundle.
        load_model (example_libs
          \<lparr>joblib_load := \<lambda>path. Inr \<lparr>payload_model = Some 7, payload_encoders = None,
                                      payload_features = Some [''Age'', ''Glucose''],
                                      payload_stats = Some []\<rparr>\<rparr>) = Inr bundle
        \<and> model_loaded bundle \<and> FEATURES bundle = [''Age'', ''Glucose''])"
  using load_model_missing_or_present
    [where lib = example_libs and msg = MODEL_FILE]
    load_model_missing_or_present
    [where lib = "example_libs
          \<lparr>joblib_load := \<lambda>path. Inr \<lparr>payload_model = Some 7, payload_encoders = None,
                                      payload_features = Some [''Age'', ''Glucose''],
                                      payload_stats = Some []\<rparr>\<rparr>"
       and payload = "\<lparr>payload_model = Some 7, payload_encoders = None,
                                      payload_features = Some [''Age'', ''Glucose''],
                                      payload_stats = Some []\<rparr>"
       and m = "7" and fs = "[''Age'', ''Glucose'']" and st = "[]"]
  by (auto simp add: example_libs_def)

subsection \<open>Scatter chart without Y\<close>




subsection \<open>Exceptions of the statistical routines\<close>

text \<open>
  Claim C7. When the button is pressed and the routine of the selection raises an exception
  of a class derived from \<^verbatim>\<open>Exception\<close> on the two selected numeric columns, the screen shows
  the widgets and then the error \<^verbatim>\<open>Erreur : \<close> followed by the text of the exception, and the
  run completes.
\<close>

theorem routine_exception_is_shown:
  assumes "2 \<le> length (select_dtypes_number df)" and "test_pressed ui"
    and "var_a = selected (select_dtypes_number df) (pick_var1 ui)"
    and "var_b = selected (select_dtypes_number df) (pick_var2 ui)"
    and "test = selected test_names (pick_test ui)"
    and "getitem df var_a = Inr a" and "getitem df var_b = Inr b"
    and "fst (routine lib test) a b = Inl e"
    and "isinstance_Exception e"
  shows "tests lib ui (Some df) =
           (St_header tests_header # test_widgets (select_dtypes_number df)
              @ [St_error (''Erreur : '' @ exn_str e)],
            Completed)"
  using assms by (simp add: tests_def run_test_def Let_def)

theorem routine_exception_is_shown_witness:
  "tests example_libs example_user (Some diabetes_df) =
     (St_header tests_header # test_widgets [''Age'', ''Glucose'']
        @ [St_error ''Erreur : zero_method''] :: string ui_event list,
      Completed)"
  using routine_exception_is_shown
    [where df = diabetes_df and ui = example_user and lib = example_libs
       and var_a = "Some ''Age''" and var_b = "Some ''Glucose''" and test = "Some ''Wilcoxon''"
       and a = "Numeric [Float 25, Float 30, Float 35, Float 40]"
       and b = "Numeric [Float 85, Float 95, Float 105, Float 115]"
       and e = "Raised ValueError ''zero_method''"]
  by (simp add: example_user_def example_libs_def diabetes_df_def select_dtypes_number_def
      selected_def test_names_def getitem_def routine_def)

subsection \<open>Prediction without a model\<close>

text \<open>
  Claim C8. When the model is not loaded, the prediction screen shows its header and the
  fixed error that names \<^verbatim>\<open>model.pkl\<close>, then stops: the page has no input widget, no button
  and no prediction. The same holds for the whole run when the navigation is on the
  prediction screen.
\<close>

theorem prediction_disabled_without_model:
  assumes "\<not> model_loaded globals"
  shows "prediction lib ui globals =
           ([St_header prediction_header, St_error model_missing_message], Stopped)
         \<and> (\<exists>before after. model_missing_message = before @ ''model.pkl'' @ after)
         \<and> (load_model lib = Inr globals \<longrightarrow> selected menu_options (pick_menu ui) = Some PREDICTION
              \<longrightarrow> app lib ui session =
                    (sidebar @ [St_header prediction_header, St_error model_missing_message],
                     Stopped, session))"
proof -
  have screen: "prediction lib ui globals =
           ([St_header prediction_header, St_error model_missing_message], Stopped)"
    using assms by (simp add: prediction_def)
  have names: "model_missing_message = ''Le fichier '' @ ''model.pkl'' @ drop 20 model_missing_message"
    by (simp add: model_missing_message_def MODEL_FILE_def)
  have menu: "PREDICTION \<noteq> ACCUEIL" "PREDICTION \<noteq> IMPORTER" "PREDICTION \<noteq> VISUALISATIONS"
    "PREDICTION \<noteq> TESTS"
    by (simp_all add: PREDICTION_def ACCUEIL_def IMPORTER_def VISUALISATIONS_def TESTS_def)
  have run: "app lib ui session =
                    (sidebar @ [St_header prediction_header, St_error model_missing_message],
                     Stopped, session)"
    if "load_model lib = Inr globals" "selected menu_options (pick_menu ui) = Some PREDICTION"
    using that screen menu by (simp add: app_def)
  show ?thesis using screen names run by blast
qed

theorem prediction_disabled_without_model_witness:
  "app example_libs example_user None =
     (sidebar @ [St_header prediction_header, St_error model_missing_message] :: string ui_event list,
      Stopped, None)"
  using prediction_disabled_without_model
    [where globals = "\<lparr>model_loaded = False, model = None, encoders = [],
                       FEATURES = [], STATS = []\<rparr>"
       and lib = example_libs and ui = example_user and session = None]
  by (simp add: example_libs_def example_user_def load_model_def selected_def menu_options_def)

subsection \<open>The Age and Glucose scenario\<close>

text \<open>
  Claim C9. For the dataset with Age = [25, 30, 35, 40] and Glucose = [85, 95, 105, 115],
  Pearson's coefficient of the two columns is exactly 1; with the scatter chart chosen,
  X = Age and Y = Glucose, and a correlation routine that returns this coefficient, the
  screen shows the chart and the positive-relation sentence. An import whose parse returns
  this dataset leaves it in the session store.
\<close>

theorem age_glucose_correlation:
  assumes "corr lib (Numeric [Float 25, Float 30, Float 35, Float 40])
             (Numeric [Float 85, Float 95, Float 105, Float 115])
           = Inr (pearson [25, 30, 35, 40] [85, 95, 105, 115])"
    and "px_scatter lib diabetes_df (Some ''Age'') (Some ''Glucose'') (color_choice ui)
           ''Nuage de points : Age vs Glucose'' = Inr fig"
    and "pick_x ui = 0" and "pick_y ui = 2" and "pick_chart ui = 2"
  shows "pearson [25, 30, 35, 40] [85, 95, 105, 115] = Float 1
         \<and> visualisations lib ui (Some diabetes_df) =
             (St_header visualisations_header # chart_widgets diabetes_df
                @ [St_plotly_chart fig,
                   St_info (interpretation_prefix
                            @ positive_sentence (Some ''Age'') (Some ''Glucose''))],
              Completed)
         \<and> (uploaded ui = Some f \<longrightarrow> endswith (upload_name f) ''.csv''
              \<longrightarrow> read_csv lib f = Inr diabetes_df
              \<longrightarrow> snd (snd (importer lib ui session)) = Some diabetes_df)"
proof -
  have built: "build_chart lib diabetes_df (Some ''Age'') (Some ''Glucose'')
                 (Some NUAGE_DE_POINTS) (color_choice ui) =
               ([], Value (fig, scatter_interpretation (Some ''Age'') (Some ''Glucose'')
                                  (pearson [25, 30, 35, 40] [85, 95, 105, 115])))"
    using assms(1,2)
    by (intro scatter_built) (simp_all add: AUCUNE_def label_str_def getitem_def diabetes_df_def)
  have positive: "scatter_interpretation (Some ''Age'') (Some ''Glucose'')
                    (pearson [25, 30, 35, 40] [85, 95, 105, 115])
                  = positive_sentence (Some ''Age'') (Some ''Glucose'')"
    by (simp add: pearson_age_glucose scatter_interpretation_def float_gt_def)
  have picks: "selected (columns diabetes_df) (pick_x ui) = Some ''Age''"
    "selected (AUCUNE # columns diabetes_df) (pick_y ui) = Some ''Glucose''"
    "selected chart_types (pick_chart ui) = Some NUAGE_DE_POINTS"
    using assms(3-5) by (simp_all add: selected_def columns_def diabetes_df_def chart_types_def)
  have screen: "visualisations lib ui (Some diabetes_df) =
             (St_header visualisations_header # chart_widgets diabetes_df
                @ [St_plotly_chart fig,
                   St_info (interpretation_prefix
                            @ positive_sentence (Some ''Age'') (Some ''Glucose''))],
              Completed)"
    using built positive picks by (simp add: visualisations_def)
  have imported: "snd (snd (importer lib ui session)) = Some diabetes_df"
    if "uploaded ui = Some f" "endswith (upload_name f) ''.csv''"
      "read_csv lib f = Inr diabetes_df"
    using that by (simp add: importer_def Let_def)
  show ?thesis using pearson_age_glucose screen imported by blast
qed

theorem age_glucose_correlation_witness:
  "visualisations example_libs example_user (Some diabetes_df) =
     (St_header visualisations_header # chart_widgets diabetes_df
        @ [St_plotly_chart ''Nuage de points : Age vs Glucose'',
           St_info (interpretation_prefix
                    @ positive_sentence (Some ''Age'') (Some ''Glucose''))],
      Completed)"
  using age_glucose_correlation
    [where lib = example_libs and ui = example_user
       and fig = "''Nuage de points : Age vs Glucose''"]
  by (simp add: example_libs_def example_user_def)

subsection \<open>Fallback of the numeric inputs\<close>

text \<open>
  Claim C10. For a feature that has no stats record, or whose record is not categorical
  and has none of \<^verbatim>\<open>min\<close>, \<^verbatim>\<open>max\<close> and \<^verbatim>\<open>mean\<close>, the screen calls \<^verbatim>\<open>st.number_input\<close> with the
  integer bounds 0 and 1 and the float default 0.5, and the widget is on the page exactly
  when that call returns. When the call raises, as Streamlit's widget does for numeric
  arguments of mixed type, the exception leaves the script: the loop is outside any
  \<^verbatim>\<open>try\<close>, and the screen ends without any input widget.
\<close>

theorem numeric_input_fallback_call:
  fixes lib :: "('fig, 'model, 'enc) libs"
  assumes "map_of stats feat = None
           \<or> (\<exists>info. map_of stats feat = Some info
                \<and> stats_type info \<noteq> Some (PStr ''categorical'')
                \<and> stats_min info = None \<and> stats_max info = None \<and> stats_mean info = None)"
  shows "(feature_input ui stats feat :: py_exn + ('fig ui_event \<times> pyval)) =
           (case number_input ui feat (PInt 0) (PInt 1) (PFloat (Float 0.5)) of
              Inl e \<Rightarrow> Inl e
            | Inr v \<Rightarrow> Inr (St_number_input feat (PInt 0) (PInt 1) (PFloat (Float 0.5)), v))
         \<and> (\<forall>e. number_input ui feat (PInt 0) (PInt 1) (PFloat (Float 0.5)) = Inl e
              \<longrightarrow> model_loaded globals \<longrightarrow> STATS globals = stats
              \<longrightarrow> FEATURES globals = feat # feats
              \<longrightarrow> prediction lib ui globals =
                    ([St_header prediction_header, St_write prediction_prompt], Crashed e))"
proof -
  have crash: "prediction lib ui globals =
                 ([St_header prediction_header, St_write prediction_prompt], Crashed e)"
    if "number_input ui feat (PInt 0) (PInt 1) (PFloat (Float 0.5)) = Inl e"
      "model_loaded globals" "STATS globals = stats" "FEATURES globals = feat # feats" for e
    using that by (simp add: prediction_def feature_input_fallback [OF assms])
  show ?thesis using feature_input_fallback [OF assms, of ui] crash by blast
qed

theorem numeric_input_fallback_call_witness:
  "prediction example_libs (example_user\<lparr>number_input := strict_number_input\<rparr>) example_bundle =
     ([St_header prediction_header, St_write prediction_prompt] :: string ui_event list,
      Crashed (Raised (OtherException ''StreamlitMixedNumericTypesError'')
                 ''All numerical arguments must be of the same type.''))"
  using numeric_input_fallback_call
    [where stats = "[]" and feat = "''Glucose''" and feats = "[]" and globals = example_bundle
       and ui = "example_user\<lparr>number_input := strict_number_input\<rparr>" and lib = example_libs]
  by (simp add: example_user_def example_bundle_def strict_number_input_def)

end
